theory Spec2Isabelle
  imports Complex_Main
begin

section \<open>Push-to-talk speech-to-text controller (\<^verbatim>\<open>src/main.py\<close>, class \<^verbatim>\<open>PushToTalkSTT\<close>)\<close>

text \<open>
  The class is embedded as functions over an explicit record of its fields. Every effect
  on a collaborator (console, overlay label, clock, threads, audio device, speech model,
  keyboard controller) is appended to a chronological trace kept in that record, so that
  "what was called, and in which order" is a value one can reason about.

  Conventions of the embedding:
  \<^item> audio samples are \<^verbatim>\<open>float32\<close> numbers in the source; here they are real numbers, so
    arithmetic is exact (no rounding, no NaN, no infinity). The element type of an array
    is kept as a tag, since the source tests it. Where the source rounds (the RMS of
    line 231, the quotients of line 256) the exact value can differ from the computed one
    in the last bits. The auxiliary facts describe this exact model. Apart from concrete
    sessions with samples of amplitude one half, far from both thresholds, the theorems
    of the claims do not say on which side of the RMS or peak threshold an array with
    non-zero samples falls: they are about arrays of zeros, where \<^verbatim>\<open>float32\<close> arithmetic
    is exact, about the length, which is an integer, and about what follows once a
    branch is taken;
  \<^item> a Python string that may hold any character (the text the speech model returns) is
    a list of Unicode code points; the colours and the key names are ASCII literals;
  \<^item> the overlay labels start with a bullet character in the source; here each label is
    a constructor of \<open>status\<close> and the colour is the source's string;
  \<^item> console messages are constructors of \<open>message\<close> (the formatted numbers are left out);
  \<^item> sleeps are recorded in milliseconds;
  \<^item> a Python exception is a value of \<open>exn\<close>.
\<close>

subsection \<open>Data\<close>

datatype exn =
    ValueError
  | AttributeError
  | ZeroDivisionError
  | PortAudioError
  | EngineError
  | ControllerError

datatype warning = MeanOfEmptySlice | DivideByZero

datatype dtype = Float32 | Float64

record ndarray =
  dtype :: dtype
  data :: "real list"

text \<open>The members of \<^verbatim>\<open>pynput.keyboard.Key\<close> that the source names, and all the others.\<close>

datatype special_key =
    Key_ctrl_r | Key_alt_r | Key_f8 | Key_shift_r | Key_esc | Key_scroll_lock | Key_insert
  | Key_other nat

text \<open>
  A key event carries either a member of the \<^verbatim>\<open>Key\<close> enumeration, which has no attribute
  \<^verbatim>\<open>char\<close>, or a \<^verbatim>\<open>KeyCode\<close>, whose attribute \<^verbatim>\<open>char\<close> is a string or \<^verbatim>\<open>None\<close>.
\<close>

datatype key = Key special_key | KeyCode "nat option" "string option"

text \<open>\<^verbatim>\<open>self.trigger_key\<close>: a string (\<^verbatim>\<open>isinstance(self.trigger_key, str)\<close>) or a \<^verbatim>\<open>Key\<close> member.\<close>

datatype trigger = TriggerStr string | TriggerKey special_key

text \<open>A Python \<^verbatim>\<open>str\<close> as the list of its Unicode code points.\<close>

type_synonym pystr = "nat list"

datatype status =
    Ready | Recording | Processing | TooShort | Silence | NoText | Error

datatype message =
    RecordingStarted
  | RecordingStopped
  | NoAudioCaptured
  | AudioStatus
  | ErrorDuringRecording exn
  | NoAudioBuffer
  | AudioLength
  | AudioShape
  | RmsAndMaxAmplitude
  | AudioTooShort
  | AudioAppearsSilence
  | Transcribing
  | Transcribed pystr
  | NoTextTranscribed
  | ErrorDuringTranscription exn
  | TextTypedSuccessfully
  | ErrorTypingText exn

datatype thread_target = RecordAudio | TranscribeAndType

datatype event =
    Print message
  | Warn warning
  | UpdateStatus status string
  | Sleep nat
  | StartThread thread_target
  | StreamOpen
  | StreamStart
  | StreamStop
  | StreamClose
  | Transcribe ndarray
  | KeyboardType nat

record state =
  trigger_key :: trigger
  sample_rate :: nat
  is_recording :: bool
  audio_buffer :: "ndarray list"
  stream :: bool
  status_label :: "status \<times> string"
  trace :: "event list"

text \<open>
  The collaborators whose behaviour the source does not fix: what the speech model
  answers for an array (\<^verbatim>\<open>self.model.transcribe(...)["text"]\<close>, or the exception it
  raises), whether the \<open>i\<close>-th call of \<^verbatim>\<open>self.keyboard_controller.type\<close> (with the code
  point of the character) raises, whether
  opening, starting, stopping or closing the input stream raises, and the values of
  \<^verbatim>\<open>self.is_recording\<close> that the recording thread reads in its waiting loop (the flag is
  written by the key handlers on another thread).
\<close>

record env =
  transcribe :: "ndarray \<Rightarrow> exn + pystr"
  keyboard_type :: "nat \<Rightarrow> nat \<Rightarrow> exn option"
  input_stream :: "exn option"
  stream_start :: "exn option"
  stream_stop :: "exn option"
  stream_close :: "exn option"
  flag_reads :: "bool list"

subsection \<open>Effects\<close>

definition emit :: "event \<Rightarrow> state \<Rightarrow> state" where
  "emit e s = s\<lparr>trace := trace s @ [e]\<rparr>"

definition py_print :: "message \<Rightarrow> state \<Rightarrow> state" where
  "py_print m s = emit (Print m) s"

definition time_sleep :: "nat \<Rightarrow> state \<Rightarrow> state" where
  "time_sleep ms s = emit (Sleep ms) s"

text \<open>
  \<^verbatim>\<open>_update_status\<close> (lines 100-106) schedules the change of the label's text and colour
  and swallows every exception: it always returns normally.
\<close>

definition update_status :: "status \<Rightarrow> string \<Rightarrow> state \<Rightarrow> state" where
  "update_status st color s = emit (UpdateStatus st color) (s\<lparr>status_label := (st, color)\<rparr>)"

subsection \<open>Key matching and the key handlers (lines 108-163)\<close>

fun getattr_char :: "key \<Rightarrow> exn + string option" where
  "getattr_char (Key k) = Inl AttributeError"
| "getattr_char (KeyCode vk c) = Inr c"

definition hasattr_char :: "key \<Rightarrow> bool" where
  "hasattr_char k = (case getattr_char k of Inl e \<Rightarrow> False | Inr c \<Rightarrow> True)"

text \<open>
  Lines 112-120 and 138-146, the same text in both handlers. Python's \<^verbatim>\<open>and\<close> evaluates
  \<^verbatim>\<open>key.char\<close> only when \<^verbatim>\<open>hasattr(key, 'char')\<close> holds. In the other branch \<^verbatim>\<open>==\<close> between
  a key event and a \<^verbatim>\<open>Key\<close> member holds exactly for that member.
\<close>

definition key_matches :: "trigger \<Rightarrow> key \<Rightarrow> exn + bool" where
  "key_matches t k =
     (case t of
        TriggerStr c \<Rightarrow>
          (if hasattr_char k
           then (case getattr_char k of
                   Inl e \<Rightarrow> Inl e
                 | Inr kc \<Rightarrow> Inr (kc = Some c))
           else Inr False)
      | TriggerKey sk \<Rightarrow> Inr (k = Key sk))"

definition on_key_press :: "state \<Rightarrow> key \<Rightarrow> exn + state" where
  "on_key_press s k =
     (case key_matches (trigger_key s) k of
        Inl e \<Rightarrow> Inl e
      | Inr m \<Rightarrow>
          if m then
            (if \<not> is_recording s then
               Inr (emit (StartThread RecordAudio)
                     (update_status Recording ''red''
                       (py_print RecordingStarted
                         (s\<lparr>is_recording := True, audio_buffer := []\<rparr>))))
             else Inr s)
          else Inr s)"

text \<open>\<^verbatim>\<open>_process_audio\<close> (lines 208-212) only starts the transcription thread.\<close>

definition process_audio :: "state \<Rightarrow> state" where
  "process_audio s = emit (StartThread TranscribeAndType) s"

definition on_key_release :: "state \<Rightarrow> key \<Rightarrow> exn + state" where
  "on_key_release s k =
     (case key_matches (trigger_key s) k of
        Inl e \<Rightarrow> Inl e
      | Inr m \<Rightarrow>
          if m then
            (if is_recording s then
               (let s1 = time_sleep 200
                           (update_status Processing ''yellow''
                             (py_print RecordingStopped (s\<lparr>is_recording := False\<rparr>)))
                in if audio_buffer s1 \<noteq> [] then Inr (process_audio s1)
                   else Inr (update_status Ready ''gray'' (py_print NoAudioCaptured s1)))
             else Inr s)
          else Inr s)"

text \<open>
  The capture callback (lines 169-174): \<^verbatim>\<open>indata.copy().flatten()\<close> is appended while the
  flag is set. \<open>st\<close> tells whether the audio layer reported a status.
\<close>

definition audio_callback :: "state \<Rightarrow> ndarray \<Rightarrow> bool \<Rightarrow> state" where
  "audio_callback s indata st =
     (let s1 = (if st then py_print AudioStatus s else s)
      in if is_recording s1 then s1\<lparr>audio_buffer := audio_buffer s1 @ [indata]\<rparr> else s1)"

subsection \<open>The numpy operations the source uses\<close>

text \<open>
  \<^verbatim>\<open>np.concatenate\<close> raises on an empty list of arrays; the element type of the result is
  the wider one of the chunks' element types.
\<close>

definition np_concatenate :: "ndarray list \<Rightarrow> exn + ndarray" where
  "np_concatenate chunks =
     (if chunks = [] then Inl ValueError
      else Inr \<lparr>dtype = (if Float64 \<in> set (map dtype chunks) then Float64 else Float32),
                data = concat (map data chunks)\<rparr>)"

text \<open>
  \<^verbatim>\<open>np.mean\<close>: the sum over the count. On an empty array numpy answers NaN and prints a
  warning; the value written here for that case (\<open>0 / 0 = 0\<close> in HOL) is never used,
  because line 232 raises on an empty array.
\<close>

definition np_mean :: "real list \<Rightarrow> real" where
  "np_mean xs = sum_list xs / real (length xs)"

text \<open>
  Line 231, \<^verbatim>\<open>np.sqrt(np.mean(audio_data**2))\<close>, in exact arithmetic. The source computes
  it in \<^verbatim>\<open>float32\<close>; both values are zero on an array of zeros.
\<close>

definition root_mean_square :: "real list \<Rightarrow> real" where
  "root_mean_square xs = sqrt (np_mean (map (\<lambda>x. x\<^sup>2) xs))"

text \<open>
  \<^verbatim>\<open>np.abs(a).max()\<close> (lines 232 and 254): the largest absolute value; numpy raises on an
  array of size zero.
\<close>

definition peak :: "real list \<Rightarrow> real" where
  "peak xs = Max (set (map abs xs))"

definition np_abs_max :: "real list \<Rightarrow> exn + real" where
  "np_abs_max xs = (if xs = [] then Inl ValueError else Inr (peak xs))"

text \<open>
  \<^verbatim>\<open>a / d\<close>: element-wise division, keeping the element type. numpy does not raise on a
  zero divisor; it prints a warning, recorded as an event.
\<close>

definition np_divide :: "ndarray \<Rightarrow> real \<Rightarrow> state \<Rightarrow> ndarray \<times> state" where
  "np_divide a d s =
     (a\<lparr>data := map (\<lambda>x. x / d) (data a)\<rparr>,
      if d = 0 then emit (Warn DivideByZero) s else s)"

text \<open>\<^verbatim>\<open>a.astype(t)\<close>: the values are kept (exact arithmetic), the element type changes.\<close>

definition astype :: "ndarray \<Rightarrow> dtype \<Rightarrow> ndarray" where
  "astype a t = a\<lparr>dtype := t\<rparr>"

subsection \<open>Strings\<close>

text \<open>
  \<^verbatim>\<open>str.strip()\<close> (line 265) removes the leading and the trailing whitespace characters.
  These are the characters for which \<^verbatim>\<open>str.isspace\<close> holds: U+0009 to U+000D, U+001C to
  U+0020, U+0085, U+00A0, U+1680, U+2000 to U+200A, U+2028, U+2029, U+202F, U+205F and
  U+3000.
\<close>

definition is_space :: "nat \<Rightarrow> bool" where
  "is_space c =
     ((0x0009 \<le> c \<and> c \<le> 0x000D) \<or> (0x001C \<le> c \<and> c \<le> 0x0020)
      \<or> c = 0x0085 \<or> c = 0x00A0 \<or> c = 0x1680
      \<or> (0x2000 \<le> c \<and> c \<le> 0x200A)
      \<or> c = 0x2028 \<or> c = 0x2029 \<or> c = 0x202F \<or> c = 0x205F \<or> c = 0x3000)"

definition strip :: "pystr \<Rightarrow> pystr" where
  "strip t = rev (dropWhile is_space (rev (dropWhile is_space t)))"

text \<open>The code points of an ASCII literal.\<close>

definition codepoints :: "string \<Rightarrow> pystr" where
  "codepoints t = map of_char t"

subsection \<open>Text injection (\<^verbatim>\<open>_type_text\<close>, lines 286-299)\<close>

text \<open>
  The loop over the characters, inside the \<^verbatim>\<open>try\<close>: the result holds the state reached
  and the exception that ended the loop, if one did. \<open>i\<close> counts the calls made so far.
\<close>

fun type_chars :: "env \<Rightarrow> nat \<Rightarrow> pystr \<Rightarrow> state \<Rightarrow> state \<times> exn option" where
  "type_chars ev i [] s = (s, None)"
| "type_chars ev i (c # cs) s =
     (let s1 = emit (KeyboardType c) s
      in case keyboard_type ev i c of
           Some e \<Rightarrow> (s1, Some e)
         | None \<Rightarrow> type_chars ev (Suc i) cs (time_sleep 10 s1))"

definition type_text :: "env \<Rightarrow> pystr \<Rightarrow> state \<Rightarrow> state" where
  "type_text ev t s =
     (case type_chars ev 0 t (time_sleep 100 s) of
        (s1, None) \<Rightarrow> py_print TextTypedSuccessfully s1
      | (s1, Some e) \<Rightarrow> py_print (ErrorTypingText e) s1)"

subsection \<open>Validation, transcription and typing (\<^verbatim>\<open>_transcribe_and_type\<close>, lines 214-284)\<close>

text \<open>Lines 262-276: the call of the speech model and what follows it.\<close>

definition run_model :: "env \<Rightarrow> ndarray \<Rightarrow> state \<Rightarrow> state \<times> exn option" where
  "run_model ev audio_data s =
     (let s1 = emit (Transcribe audio_data) (py_print Transcribing s)
      in case transcribe ev audio_data of
           Inl e \<Rightarrow> (s1, Some e)
         | Inr raw \<Rightarrow>
             (let text = strip raw
              in if text \<noteq> [] then
                   (update_status Ready ''gray''
                      (type_text ev text (py_print (Transcribed text) s1)), None)
                 else
                   (update_status Ready ''gray''
                      (time_sleep 1000
                         (update_status NoText ''orange''
                            (py_print NoTextTranscribed s1))), None)))"

text \<open>Lines 253-260: peak normalisation and the element type the model expects.\<close>

definition normalize_audio :: "ndarray \<Rightarrow> state \<Rightarrow> (ndarray \<times> state) \<times> exn option" where
  "normalize_audio audio_data s =
     (case np_abs_max (data audio_data) of
        Inl e \<Rightarrow> ((audio_data, s), Some e)
      | Inr max_val \<Rightarrow>
          (let (a1, s1) = (if max_val > 0 then np_divide audio_data max_val s
                           else (audio_data, s));
               a2 = (if dtype a1 \<noteq> Float32 then astype a1 Float32 else a1)
           in ((a2, s1), None)))"

text \<open>
  The body of the \<^verbatim>\<open>try\<close> (lines 217-276). The result holds the state reached and the
  exception that left the body, if one did. Line 226 divides the length by
  \<^verbatim>\<open>self.sample_rate\<close> (Python raises on a zero divisor); line 231 computes the RMS; line
  232 the peak; lines 239-251 are the two rejections.
\<close>

definition try_transcribe_and_type :: "env \<Rightarrow> state \<Rightarrow> state \<times> exn option" where
  "try_transcribe_and_type ev s =
     (if audio_buffer s = [] then
        (update_status Ready ''gray'' (py_print NoAudioBuffer s), None)
      else
        (case np_concatenate (audio_buffer s) of
           Inl e \<Rightarrow> (s, Some e)
         | Inr audio_data \<Rightarrow>
             if sample_rate s = 0 then (s, Some ZeroDivisionError)
             else
               (let s1 = py_print AudioShape (py_print AudioLength s);
                    s2 = (if data audio_data = [] then emit (Warn MeanOfEmptySlice) s1 else s1);
                    rms = root_mean_square (data audio_data)
                in case np_abs_max (data audio_data) of
                     Inl e \<Rightarrow> (s2, Some e)
                   | Inr max_amplitude \<Rightarrow>
                       (let s3 = py_print RmsAndMaxAmplitude s2;
                            silence_threshold = 1 / 1000;
                            min_duration = 2 / 10
                        in if real (length (data audio_data)) < real (sample_rate s3) * min_duration
                           then
                             (update_status Ready ''gray''
                                (time_sleep 1000
                                   (update_status TooShort ''orange''
                                      (py_print AudioTooShort s3))), None)
                           else if rms < silence_threshold \<and> max_amplitude < 1 / 100
                           then
                             (update_status Ready ''gray''
                                (time_sleep 1000
                                   (update_status Silence ''orange''
                                      (py_print AudioAppearsSilence s3))), None)
                           else
                             (case normalize_audio audio_data s3 of
                                ((a, s4), Some e) \<Rightarrow> (s4, Some e)
                              | ((a, s4), None) \<Rightarrow> run_model ev a s4)))))"

text \<open>The whole method: the \<^verbatim>\<open>except\<close> clause (lines 278-284) handles what left the body.\<close>

definition transcribe_and_type :: "env \<Rightarrow> state \<Rightarrow> state" where
  "transcribe_and_type ev s =
     (case try_transcribe_and_type ev s of
        (s1, None) \<Rightarrow> s1
      | (s1, Some e) \<Rightarrow>
          update_status Ready ''gray''
            (time_sleep 1000
               (update_status Error ''red''
                  (py_print (ErrorDuringTranscription e) s1))))"

subsection \<open>The recording thread (\<^verbatim>\<open>_record_audio\<close>, lines 165-206)\<close>

text \<open>
  The waiting loop of lines 191-192. Each test of the loop reads the flag, which another
  thread writes: the values read are given, and the state takes each value as it is read.
  The loop ends at the first \<open>False\<close>; on a list of reads without one it has not ended.
\<close>

fun wait_while_recording :: "bool list \<Rightarrow> state \<Rightarrow> state option" where
  "wait_while_recording [] s = None"
| "wait_while_recording (b # bs) s =
     (if b then wait_while_recording bs (time_sleep 50 (s\<lparr>is_recording := True\<rparr>))
      else Some (s\<lparr>is_recording := False\<rparr>))"

text \<open>Lines 195-198.\<close>

definition stop_stream :: "env \<Rightarrow> state \<Rightarrow> state \<times> exn option" where
  "stop_stream ev s =
     (if stream s then
        (let s1 = emit StreamStop s
         in case stream_stop ev of
              Some e \<Rightarrow> (s1, Some e)
            | None \<Rightarrow>
                (let s2 = emit StreamClose s1
                 in case stream_close ev of
                      Some e \<Rightarrow> (s2, Some e)
                    | None \<Rightarrow> (s2\<lparr>stream := False\<rparr>, None)))
      else (s, None))"

text \<open>The body of the \<^verbatim>\<open>try\<close> (lines 168-198); \<open>None\<close> when the waiting loop has not ended.\<close>

definition try_record_audio :: "env \<Rightarrow> state \<Rightarrow> (state \<times> exn option) option" where
  "try_record_audio ev s =
     (let s1 = emit StreamOpen s
      in case input_stream ev of
           Some e \<Rightarrow> Some (s1, Some e)
         | None \<Rightarrow>
             (let s2 = emit StreamStart (s1\<lparr>stream := True\<rparr>)
              in case stream_start ev of
                   Some e \<Rightarrow> Some (s2, Some e)
                 | None \<Rightarrow>
                     (case wait_while_recording (flag_reads ev) (time_sleep 100 s2) of
                        None \<Rightarrow> None
                      | Some s3 \<Rightarrow> Some (stop_stream ev s3))))"

text \<open>The whole method, with the \<^verbatim>\<open>except\<close> clause of lines 200-206.\<close>

definition record_audio :: "env \<Rightarrow> state \<Rightarrow> state option" where
  "record_audio ev s =
     (case try_record_audio ev s of
        None \<Rightarrow> None
      | Some (s1, None) \<Rightarrow> Some s1
      | Some (s1, Some e) \<Rightarrow>
          Some (update_status Error ''red''
                  ((py_print (ErrorDuringRecording e) s1)\<lparr>is_recording := False\<rparr>)))"

subsection \<open>Observations on a trace\<close>

text \<open>The labels shown, the arrays given to the model and the characters given to the keyboard.\<close>

fun statuses :: "event list \<Rightarrow> status list" where
  "statuses [] = []"
| "statuses (UpdateStatus st c # es) = st # statuses es"
| "statuses (e # es) = statuses es"

fun engine_calls :: "event list \<Rightarrow> ndarray list" where
  "engine_calls [] = []"
| "engine_calls (Transcribe a # es) = a # engine_calls es"
| "engine_calls (e # es) = engine_calls es"

fun typed :: "event list \<Rightarrow> pystr" where
  "typed [] = []"
| "typed (KeyboardType c # es) = c # typed es"
| "typed (e # es) = typed es"

fun sleeps :: "event list \<Rightarrow> nat list" where
  "sleeps [] = []"
| "sleeps (Sleep ms # es) = ms # sleeps es"
| "sleeps (e # es) = sleeps es"

fun warnings :: "event list \<Rightarrow> warning list" where
  "warnings [] = []"
| "warnings (Warn w # es) = w # warnings es"
| "warnings (e # es) = warnings es"

fun prints :: "event list \<Rightarrow> message list" where
  "prints [] = []"
| "prints (Print m # es) = m # prints es"
| "prints (e # es) = prints es"

text \<open>The events that a run from \<open>s\<close> to \<open>s'\<close> has added to the trace.\<close>

definition events_since :: "state \<Rightarrow> state \<Rightarrow> event list" where
  "events_since s s' = drop (length (trace s)) (trace s')"

subsection \<open>Concrete sessions\<close>

text \<open>
  The object as \<^verbatim>\<open>main\<close> builds it (right control key, 16 kHz), after a key release that
  found the chunks \<open>buf\<close> in the buffer, and while a recording is running.
\<close>

definition released :: "ndarray list \<Rightarrow> state" where
  "released buf =
     \<lparr>trigger_key = TriggerKey Key_ctrl_r, sample_rate = 16000, is_recording = False,
      audio_buffer = buf, stream = False, status_label = (Processing, ''yellow''),
      trace = []\<rparr>"

definition recording :: "ndarray list \<Rightarrow> state" where
  "recording buf =
     \<lparr>trigger_key = TriggerKey Key_ctrl_r, sample_rate = 16000, is_recording = True,
      audio_buffer = buf, stream = True, status_label = (Recording, ''red''),
      trace = []\<rparr>"

text \<open>A chunk of \<open>n\<close> samples, all equal to \<open>v\<close>, as the capture callback stores it.\<close>

definition chunk :: "nat \<Rightarrow> real \<Rightarrow> ndarray" where
  "chunk n v = \<lparr>dtype = Float32, data = replicate n v\<rparr>"

text \<open>
  Collaborators: a model that answers the ASCII text \<open>answer\<close> for every array (or
  raises), a keyboard whose call number \<open>i\<close> fails when \<open>bad i\<close> holds, and an audio device
  that works, with a flag that is read as set twice and then as cleared.
\<close>

definition collaborators :: "exn + string \<Rightarrow> (nat \<Rightarrow> bool) \<Rightarrow> env" where
  "collaborators answer bad =
     \<lparr>transcribe = (\<lambda>a. case answer of Inl e \<Rightarrow> Inl e | Inr t \<Rightarrow> Inr (codepoints t)),
      keyboard_type = (\<lambda>i c. if bad i then Some ControllerError else None),
      input_stream = None, stream_start = None, stream_stop = None, stream_close = None,
      flag_reads = [True, True, False]\<rparr>"

section \<open>Auxiliary facts\<close>

lemmas effect_defs = emit_def py_print_def time_sleep_def update_status_def

lemma statuses_append: "statuses (xs @ ys) = statuses xs @ statuses ys"
  by (induction xs rule: statuses.induct) simp_all

lemma engine_calls_append: "engine_calls (xs @ ys) = engine_calls xs @ engine_calls ys"
  by (induction xs rule: engine_calls.induct) simp_all

lemma typed_append: "typed (xs @ ys) = typed xs @ typed ys"
  by (induction xs rule: typed.induct) simp_all

lemma warnings_append: "warnings (xs @ ys) = warnings xs @ warnings ys"
  by (induction xs rule: warnings.induct) simp_all

lemma sleeps_append: "sleeps (xs @ ys) = sleeps xs @ sleeps ys"
  by (induction xs rule: sleeps.induct) simp_all

lemma events_since_append: "events_since s (s\<lparr>trace := trace s @ es\<rparr>) = es"
  by (simp add: events_since_def)

lemma type_chars_frame:
  "\<exists>es. fst (type_chars ev i t s) = s\<lparr>trace := trace s @ es\<rparr>
        \<and> statuses es = [] \<and> engine_calls es = [] \<and> warnings es = []
        \<and> prints es = []"
proof (induction t arbitrary: i s)
  case Nil
  show ?case by (rule exI [of _ "[]"]) simp
next
  case (Cons c cs)
  show ?case
  proof (cases "keyboard_type ev i c")
    case (Some e)
    then show ?thesis
      by (simp add: effect_defs) (rule exI [of _ "[KeyboardType c]"], simp)
  next
    case None
    obtain es where es: "fst (type_chars ev (Suc i) cs (time_sleep 10 (emit (KeyboardType c) s)))
        = (time_sleep 10 (emit (KeyboardType c) s))\<lparr>trace := trace (time_sleep 10 (emit (KeyboardType c) s)) @ es\<rparr>"
      "statuses es = []" "engine_calls es = []" "warnings es = []" "prints es = []"
      using Cons.IH by blast
    show ?thesis
      using None es
      by (simp add: effect_defs) (rule exI [of _ "KeyboardType c # Sleep 10 # es"], simp)
  qed
qed

lemma type_chars_exn_state: "snd (type_chars ev i t s) = snd (type_chars ev i t s')"
  by (induction t arbitrary: i s s') (simp_all add: Let_def split: option.splits)

lemma prints_append: "prints (xs @ ys) = prints xs @ prints ys"
  by (induction xs rule: prints.induct) simp_all

lemma type_text_frame:
  "\<exists>es. type_text ev t s = s\<lparr>trace := trace s @ es\<rparr>
        \<and> statuses es = [] \<and> engine_calls es = [] \<and> warnings es = []
        \<and> prints es = [case snd (type_chars ev 0 t s) of None \<Rightarrow> TextTypedSuccessfully
                   | Some e \<Rightarrow> ErrorTypingText e]"
proof -
  obtain es where es: "fst (type_chars ev 0 t (time_sleep 100 s))
        = (time_sleep 100 s)\<lparr>trace := trace (time_sleep 100 s) @ es\<rparr>"
      "statuses es = []" "engine_calls es = []" "warnings es = []" "prints es = []"
    using type_chars_frame by blast
  obtain r where r: "snd (type_chars ev 0 t (time_sleep 100 s)) = r" by simp
  have r': "snd (type_chars ev 0 t s) = r"
    using r type_chars_exn_state by metis
  have p: "type_chars ev 0 t (time_sleep 100 s) = ((time_sleep 100 s)\<lparr>trace := trace (time_sleep 100 s) @ es\<rparr>, r)"
    using es(1) r by (metis prod.collapse)
  show ?thesis
    unfolding type_text_def p r'
    by (rule exI [of _ "Sleep 100 # es @ [Print (case r of None \<Rightarrow> TextTypedSuccessfully | Some e \<Rightarrow> ErrorTypingText e)]"])
       (cases r; simp add: effect_defs es statuses_append engine_calls_append warnings_append prints_append)
qed

lemma np_concatenate_Inr: "np_concatenate b = Inr a \<Longrightarrow> b \<noteq> []"
  by (auto simp: np_concatenate_def split: if_splits)

lemma peak_nonneg: "xs \<noteq> [] \<Longrightarrow> 0 \<le> peak xs"
proof -
  assume ne: "xs \<noteq> []"
  then obtain x where x: "x \<in> set xs" by (cases xs) auto
  have "\<bar>x\<bar> \<le> peak xs" unfolding peak_def using x by (intro Max_ge) auto
  then show ?thesis by linarith
qed

lemma abs_le_peak: "x \<in> set xs \<Longrightarrow> \<bar>x\<bar> \<le> peak xs"
  unfolding peak_def by (intro Max_ge) auto

lemma peak_attained: "xs \<noteq> [] \<Longrightarrow> \<exists>x\<in>set xs. \<bar>x\<bar> = peak xs"
proof -
  assume ne: "xs \<noteq> []"
  have "Max (set (map abs xs)) \<in> set (map abs xs)"
    using ne by (intro Max_in) auto
  then show ?thesis unfolding peak_def by auto
qed

lemma peak_zero_all_zero: "peak xs = 0 \<Longrightarrow> x \<in> set xs \<Longrightarrow> x = 0"
  using abs_le_peak [of x xs] by simp

lemma all_zero_peak: "xs \<noteq> [] \<Longrightarrow> \<forall>x\<in>set xs. x = 0 \<Longrightarrow> peak xs = 0"
  using peak_attained [of xs] by auto

lemma all_zero_rms: "\<forall>x\<in>set xs. x = 0 \<Longrightarrow> root_mean_square xs = 0"
proof -
  assume z: "\<forall>x\<in>set xs. x = 0"
  have "sum_list (map (\<lambda>x. x\<^sup>2) xs) = 0"
    using z by (induction xs) auto
  then show ?thesis by (simp add: root_mean_square_def np_mean_def)
qed

lemma loud_peak_pos:
  assumes "xs \<noteq> []" "\<not> (root_mean_square xs < 1 / 1000 \<and> peak xs < 1 / 100)"
  shows "0 < peak xs"
proof (rule ccontr)
  assume "\<not> 0 < peak xs"
  with peak_nonneg [OF assms(1)] have p: "peak xs = 0" by simp
  then have "\<forall>x\<in>set xs. x = 0" using peak_zero_all_zero by blast
  then have "root_mean_square xs = 0" by (rule all_zero_rms)
  with p assms(2) show False by simp
qed

subsection \<open>The branches of the transcription thread\<close>

lemma empty_buffer_branch:
  "audio_buffer s = [] \<Longrightarrow>
   try_transcribe_and_type ev s =
     (s\<lparr>status_label := (Ready, ''gray''),
        trace := trace s @ [Print NoAudioBuffer, UpdateStatus Ready ''gray'']\<rparr>, None)"
  by (simp add: try_transcribe_and_type_def effect_defs)

lemma zero_rate_branch:
  "np_concatenate (audio_buffer s) = Inr a \<Longrightarrow> sample_rate s = 0 \<Longrightarrow>
   try_transcribe_and_type ev s = (s, Some ZeroDivisionError)"
  by (frule np_concatenate_Inr) (simp add: try_transcribe_and_type_def)

lemma empty_array_branch:
  "np_concatenate (audio_buffer s) = Inr a \<Longrightarrow> sample_rate s \<noteq> 0 \<Longrightarrow> data a = [] \<Longrightarrow>
   try_transcribe_and_type ev s =
     (s\<lparr>trace := trace s @ [Print AudioLength, Print AudioShape, Warn MeanOfEmptySlice]\<rparr>,
      Some ValueError)"
  by (frule np_concatenate_Inr)
     (simp add: try_transcribe_and_type_def np_abs_max_def effect_defs)

lemma too_short_branch:
  "np_concatenate (audio_buffer s) = Inr a \<Longrightarrow> sample_rate s \<noteq> 0 \<Longrightarrow> data a \<noteq> [] \<Longrightarrow>
   real (length (data a)) < real (sample_rate s) * (2 / 10) \<Longrightarrow>
   try_transcribe_and_type ev s =
     (s\<lparr>status_label := (Ready, ''gray''),
        trace := trace s @
          [Print AudioLength, Print AudioShape, Print RmsAndMaxAmplitude, Print AudioTooShort,
           UpdateStatus TooShort ''orange'', Sleep 1000, UpdateStatus Ready ''gray'']\<rparr>, None)"
  by (frule np_concatenate_Inr)
     (simp add: try_transcribe_and_type_def np_abs_max_def effect_defs)

lemma silence_branch:
  "np_concatenate (audio_buffer s) = Inr a \<Longrightarrow> sample_rate s \<noteq> 0 \<Longrightarrow> data a \<noteq> [] \<Longrightarrow>
   \<not> real (length (data a)) < real (sample_rate s) * (2 / 10) \<Longrightarrow>
   root_mean_square (data a) < 1 / 1000 \<Longrightarrow> peak (data a) < 1 / 100 \<Longrightarrow>
   try_transcribe_and_type ev s =
     (s\<lparr>status_label := (Ready, ''gray''),
        trace := trace s @
          [Print AudioLength, Print AudioShape, Print RmsAndMaxAmplitude,
           Print AudioAppearsSilence,
           UpdateStatus Silence ''orange'', Sleep 1000, UpdateStatus Ready ''gray'']\<rparr>, None)"
  by (frule np_concatenate_Inr)
     (simp add: try_transcribe_and_type_def np_abs_max_def effect_defs)

lemma normalize_audio_pos:
  "data a \<noteq> [] \<Longrightarrow> 0 < peak (data a) \<Longrightarrow>
   normalize_audio a s =
     ((\<lparr>dtype = Float32, data = map (\<lambda>x. x / peak (data a)) (data a)\<rparr>, s), None)"
  by (cases "dtype a") (simp_all add: normalize_audio_def np_abs_max_def np_divide_def astype_def)

lemma accepted_branch:
  assumes "np_concatenate (audio_buffer s) = Inr a" "sample_rate s \<noteq> 0" "data a \<noteq> []"
    "\<not> real (length (data a)) < real (sample_rate s) * (2 / 10)"
    "\<not> (root_mean_square (data a) < 1 / 1000 \<and> peak (data a) < 1 / 100)"
  shows "try_transcribe_and_type ev s =
     run_model ev \<lparr>dtype = Float32, data = map (\<lambda>x. x / peak (data a)) (data a)\<rparr>
       (s\<lparr>trace := trace s @ [Print AudioLength, Print AudioShape, Print RmsAndMaxAmplitude]\<rparr>)"
proof -
  have pos: "0 < peak (data a)" using assms(3,5) by (rule loud_peak_pos)
  have ne: "audio_buffer s \<noteq> []" using assms(1) by (rule np_concatenate_Inr)
  show ?thesis
    using assms ne
    by (auto simp add: try_transcribe_and_type_def np_abs_max_def effect_defs Let_def
        normalize_audio_pos [OF assms(3) pos])
qed

lemma run_model_raises:
  "transcribe ev a = Inl e \<Longrightarrow>
   run_model ev a s = (s\<lparr>trace := trace s @ [Print Transcribing, Transcribe a]\<rparr>, Some e)"
  by (simp add: run_model_def effect_defs)

lemma run_model_blank:
  "transcribe ev a = Inr raw \<Longrightarrow> strip raw = [] \<Longrightarrow>
   run_model ev a s =
     (s\<lparr>status_label := (Ready, ''gray''),
        trace := trace s @
          [Print Transcribing, Transcribe a, Print NoTextTranscribed,
           UpdateStatus NoText ''orange'', Sleep 1000, UpdateStatus Ready ''gray'']\<rparr>, None)"
  by (simp add: run_model_def effect_defs)

lemma run_model_text:
  assumes "transcribe ev a = Inr raw" "strip raw \<noteq> []"
  shows "\<exists>es. run_model ev a s =
     (s\<lparr>status_label := (Ready, ''gray''),
        trace := trace s @
          [Print Transcribing, Transcribe a, Print (Transcribed (strip raw))] @ es @
          [UpdateStatus Ready ''gray'']\<rparr>, None)
     \<and> statuses es = [] \<and> engine_calls es = [] \<and> warnings es = []
     \<and> prints es = [case snd (type_chars ev 0 (strip raw) s) of
                       None \<Rightarrow> TextTypedSuccessfully | Some e \<Rightarrow> ErrorTypingText e]"
proof -
  let ?s1 = "s\<lparr>trace := trace s @ [Print Transcribing, Transcribe a, Print (Transcribed (strip raw))]\<rparr>"
  obtain es where es: "type_text ev (strip raw) ?s1 = ?s1\<lparr>trace := trace ?s1 @ es\<rparr>"
    "statuses es = []" "engine_calls es = []" "warnings es = []"
    "prints es = [case snd (type_chars ev 0 (strip raw) ?s1) of
                       None \<Rightarrow> TextTypedSuccessfully | Some e \<Rightarrow> ErrorTypingText e]"
    using type_text_frame [of ev "strip raw" ?s1] by blast
  have r: "snd (type_chars ev 0 (strip raw) ?s1) = snd (type_chars ev 0 (strip raw) s)"
    by (rule type_chars_exn_state)
  show ?thesis
    using assms es
    by (intro exI [of _ es]) (simp add: run_model_def effect_defs r)
qed

subsection \<open>Concrete arrays and strings\<close>

lemma peak_replicate: "0 < n \<Longrightarrow> peak (replicate n v) = \<bar>v\<bar>"
  by (simp add: peak_def)

lemma np_concatenate_single: "np_concatenate [chunk n v] = Inr (chunk n v)"
  by (simp add: np_concatenate_def chunk_def)

lemma peak_two_chunks: "0 < n \<Longrightarrow> peak (replicate n v @ replicate n v) = \<bar>v\<bar>"
  by (simp add: peak_def)

lemma np_concatenate_two:
  "np_concatenate [chunk n v, chunk m w] =
     Inr \<lparr>dtype = Float32, data = replicate n v @ replicate m w\<rparr>"
  by (simp add: np_concatenate_def chunk_def)

lemma peak_normalized:
  assumes "xs \<noteq> []" "0 < peak xs"
  shows "peak (map (\<lambda>x. x / peak xs) xs) = 1"
proof -
  obtain x where x: "x \<in> set xs" "\<bar>x\<bar> = peak xs"
    using peak_attained [OF assms(1)] by blast
  have "Max (set (map abs (map (\<lambda>x. x / peak xs) xs))) = 1"
  proof (rule Max_eqI)
    show "finite (set (map abs (map (\<lambda>x. x / peak xs) xs)))" by simp
  next
    fix y assume "y \<in> set (map abs (map (\<lambda>x. x / peak xs) xs))"
    then obtain z where z: "z \<in> set xs" "y = \<bar>z / peak xs\<bar>" by auto
    have "\<bar>z\<bar> \<le> peak xs" using z(1) by (rule abs_le_peak)
    then show "y \<le> 1" using assms(2) z(2) by simp
  next
    have "\<bar>x / peak xs\<bar> = 1" using x(2) assms(2) by simp
    then show "1 \<in> set (map abs (map (\<lambda>x. x / peak xs) xs))"
      using x(1) by force
  qed
  then show ?thesis by (simp add: peak_def)
qed

text \<open>A blank answer: space, no-break space, ideographic space, line feed.\<close>

lemma strip_blank: "strip [0x20, 0xA0, 0x3000, 0x0A] = []"
  by (simp add: strip_def is_space_def)

lemma codepoints_hi: "codepoints '' hi '' = [0x20, 0x68, 0x69, 0x20]"
  by (simp add: codepoints_def)

lemma strip_hi: "strip (codepoints '' hi '') = [0x68, 0x69]"
  by (simp add: codepoints_hi strip_def is_space_def)

subsection \<open>Whole runs of the transcription thread\<close>

text \<open>The \<^verbatim>\<open>except\<close> clause: skipped on a normal end, four more events otherwise.\<close>

lemma transcribe_and_type_ok:
  "try_transcribe_and_type ev s = (s1, None) \<Longrightarrow> transcribe_and_type ev s = s1"
  by (simp add: transcribe_and_type_def)

lemma transcribe_and_type_handled:
  "try_transcribe_and_type ev s = (s1, Some e) \<Longrightarrow>
   transcribe_and_type ev s =
     s1\<lparr>status_label := (Ready, ''gray''),
        trace := trace s1 @ [Print (ErrorDuringTranscription e), UpdateStatus Error ''red'',
                             Sleep 1000, UpdateStatus Ready ''gray'']\<rparr>"
  by (simp add: transcribe_and_type_def effect_defs)

lemma too_short_session:
  assumes "np_concatenate (audio_buffer s) = Inr a" "sample_rate s \<noteq> 0" "data a \<noteq> []"
    "real (length (data a)) < real (sample_rate s) * (2 / 10)"
  shows "transcribe_and_type ev s =
     s\<lparr>status_label := (Ready, ''gray''),
        trace := trace s @
          [Print AudioLength, Print AudioShape, Print RmsAndMaxAmplitude, Print AudioTooShort,
           UpdateStatus TooShort ''orange'', Sleep 1000, UpdateStatus Ready ''gray'']\<rparr>"
  by (rule transcribe_and_type_ok) (rule too_short_branch [OF assms])

lemma silence_session:
  assumes "np_concatenate (audio_buffer s) = Inr a" "sample_rate s \<noteq> 0" "data a \<noteq> []"
   "\<not> real (length (data a)) < real (sample_rate s) * (2 / 10)"
   "root_mean_square (data a) < 1 / 1000" "peak (data a) < 1 / 100"
  shows "transcribe_and_type ev s =
     s\<lparr>status_label := (Ready, ''gray''),
        trace := trace s @
          [Print AudioLength, Print AudioShape, Print RmsAndMaxAmplitude,
           Print AudioAppearsSilence,
           UpdateStatus Silence ''orange'', Sleep 1000, UpdateStatus Ready ''gray'']\<rparr>"
  by (rule transcribe_and_type_ok) (rule silence_branch [OF assms])

text \<open>An array that passes both checks: what is given to the model, and what follows.\<close>

lemma accepted_session:
  assumes "np_concatenate (audio_buffer s) = Inr a" "sample_rate s \<noteq> 0" "data a \<noteq> []"
    "\<not> real (length (data a)) < real (sample_rate s) * (2 / 10)"
    "\<not> (root_mean_square (data a) < 1 / 1000 \<and> peak (data a) < 1 / 100)"
  shows "\<exists>es. transcribe_and_type ev s =
     s\<lparr>status_label := (Ready, ''gray''),
        trace := trace s @
          [Print AudioLength, Print AudioShape, Print RmsAndMaxAmplitude, Print Transcribing,
           Transcribe \<lparr>dtype = Float32, data = map (\<lambda>x. x / peak (data a)) (data a)\<rparr>] @ es\<rparr>
     \<and> engine_calls es = [] \<and> warnings es = []
     \<and> (case transcribe ev \<lparr>dtype = Float32, data = map (\<lambda>x. x / peak (data a)) (data a)\<rparr> of
          Inl e \<Rightarrow> es = [Print (ErrorDuringTranscription e), UpdateStatus Error ''red'',
                          Sleep 1000, UpdateStatus Ready ''gray'']
        | Inr raw \<Rightarrow>
            if strip raw = [] then
              es = [Print NoTextTranscribed, UpdateStatus NoText ''orange'', Sleep 1000,
                    UpdateStatus Ready ''gray'']
            else
              statuses es = [Ready]
              \<and> prints es = [Transcribed (strip raw),
                   case snd (type_chars ev 0 (strip raw) s) of
                     None \<Rightarrow> TextTypedSuccessfully | Some e \<Rightarrow> ErrorTypingText e])"
proof -
  let ?a = "\<lparr>dtype = Float32, data = map (\<lambda>x. x / peak (data a)) (data a)\<rparr>"
  let ?s3 = "s\<lparr>trace := trace s @ [Print AudioLength, Print AudioShape, Print RmsAndMaxAmplitude]\<rparr>"
  have br: "try_transcribe_and_type ev s = run_model ev ?a ?s3"
    by (rule accepted_branch [OF assms])
  show ?thesis
  proof (cases "transcribe ev ?a")
    case (Inl e)
    have "try_transcribe_and_type ev s =
            (?s3\<lparr>trace := trace ?s3 @ [Print Transcribing, Transcribe ?a]\<rparr>, Some e)"
      unfolding br by (rule run_model_raises [OF Inl])
    from transcribe_and_type_handled [OF this] show ?thesis
      using Inl
      by (intro exI [of _ "[Print (ErrorDuringTranscription e), UpdateStatus Error ''red'',
                          Sleep 1000, UpdateStatus Ready ''gray'']"]) simp
  next
    case (Inr raw)
    show ?thesis
    proof (cases "strip raw = []")
      case True
      have "try_transcribe_and_type ev s =
              (?s3\<lparr>status_label := (Ready, ''gray''),
                 trace := trace ?s3 @
                   [Print Transcribing, Transcribe ?a, Print NoTextTranscribed,
                    UpdateStatus NoText ''orange'', Sleep 1000, UpdateStatus Ready ''gray'']\<rparr>, None)"
        unfolding br by (rule run_model_blank [OF Inr True])
      from transcribe_and_type_ok [OF this] show ?thesis
        using Inr True
        by (intro exI [of _ "[Print NoTextTranscribed, UpdateStatus NoText ''orange'', Sleep 1000,
                    UpdateStatus Ready ''gray'']"]) simp
    next
      case False
      obtain es where es: "run_model ev ?a ?s3 =
          (?s3\<lparr>status_label := (Ready, ''gray''),
             trace := trace ?s3 @
               [Print Transcribing, Transcribe ?a, Print (Transcribed (strip raw))] @ es @
               [UpdateStatus Ready ''gray'']\<rparr>, None)"
        "statuses es = []" "engine_calls es = []" "warnings es = []"
        "prints es = [case snd (type_chars ev 0 (strip raw) ?s3) of
                       None \<Rightarrow> TextTypedSuccessfully | Some e \<Rightarrow> ErrorTypingText e]"
        using run_model_text [OF Inr False, of ?s3] by blast
      have r: "snd (type_chars ev 0 (strip raw) ?s3) = snd (type_chars ev 0 (strip raw) s)"
        by (rule type_chars_exn_state)
      from transcribe_and_type_ok [OF es(1) [folded br]] show ?thesis
        using Inr False es(2-5)
        by (intro exI [of _ "Print (Transcribed (strip raw)) # es @ [UpdateStatus Ready ''gray'']"])
           (simp add: r statuses_append engine_calls_append warnings_append prints_append)
    qed
  qed
qed

text \<open>Every run either gives nothing to the model or has passed both checks.\<close>

lemma session_cases:
  "(engine_calls (events_since s (transcribe_and_type ev s)) = [])
   \<or> (\<exists>a. np_concatenate (audio_buffer s) = Inr a \<and> sample_rate s \<noteq> 0 \<and> data a \<noteq> []
        \<and> \<not> real (length (data a)) < real (sample_rate s) * (2 / 10)
        \<and> \<not> (root_mean_square (data a) < 1 / 1000 \<and> peak (data a) < 1 / 100))"
proof (cases "audio_buffer s = []")
  case True
  have "transcribe_and_type ev s =
      s\<lparr>status_label := (Ready, ''gray''),
        trace := trace s @ [Print NoAudioBuffer, UpdateStatus Ready ''gray'']\<rparr>"
    by (rule transcribe_and_type_ok) (rule empty_buffer_branch [OF True])
  then show ?thesis by (simp add: events_since_def)
next
  case False
  then obtain a where a: "np_concatenate (audio_buffer s) = Inr a"
    by (simp add: np_concatenate_def)
  show ?thesis
  proof (cases "sample_rate s = 0")
    case True
    from transcribe_and_type_handled [OF zero_rate_branch [OF a True]]
    show ?thesis by (simp add: events_since_def)
  next
    case rate: False
    show ?thesis
    proof (cases "data a = []")
      case True
      from transcribe_and_type_handled [OF empty_array_branch [OF a rate True]]
      show ?thesis by (simp add: events_since_def)
    next
      case ne: False
      show ?thesis
      proof (cases "real (length (data a)) < real (sample_rate s) * (2 / 10)")
        case True
        from too_short_session [OF a rate ne True]
        show ?thesis by (simp add: events_since_def)
      next
        case long: False
        show ?thesis
        proof (cases "root_mean_square (data a) < 1 / 1000 \<and> peak (data a) < 1 / 100")
          case True
          then have q: "root_mean_square (data a) < 1 / 1000" "peak (data a) < 1 / 100"
            by blast+
          from silence_session [OF a rate ne long q]
          show ?thesis by (simp add: events_since_def)
        next
          case False
          with a rate ne long show ?thesis by blast
        qed
      qed
    qed
  qed
qed

text \<open>The typing loop ends with the exception of the first call that raises.\<close>

lemma type_chars_raises:
  "i < length t \<Longrightarrow> keyboard_type ev (k + i) (t ! i) = Some e \<Longrightarrow>
   \<forall>j<i. keyboard_type ev (k + j) (t ! j) = None \<Longrightarrow>
   snd (type_chars ev k t s) = Some e"
proof (induction t arbitrary: k i s)
  case Nil
  then show ?case by simp
next
  case (Cons c cs)
  show ?case
  proof (cases i)
    case 0
    with Cons.prems show ?thesis by simp
  next
    case (Suc i')
    have first: "keyboard_type ev k c = None"
      using Cons.prems(3) Suc by force
    have "snd (type_chars ev (Suc k) cs (time_sleep 10 (emit (KeyboardType c) s))) = Some e"
    proof (rule Cons.IH [of i'])
      show "i' < length cs" using Cons.prems(1) Suc by simp
      show "keyboard_type ev (Suc k + i') (cs ! i') = Some e"
        using Cons.prems(2) Suc by simp
      show "\<forall>j<i'. keyboard_type ev (Suc k + j) (cs ! j) = None"
      proof (intro allI impI)
        fix j assume "j < i'"
        then have "Suc j < i" using Suc by simp
        with Cons.prems(3) have "keyboard_type ev (k + Suc j) ((c # cs) ! Suc j) = None"
          by blast
        then show "keyboard_type ev (Suc k + j) (cs ! j) = None" by simp
      qed
    qed
    with first show ?thesis by simp
  qed
qed

text \<open>A run that gave the array \<open>x\<close> to the model, described from \<open>x\<close> alone.\<close>

lemma engine_call_determines_session:
  assumes "engine_calls (events_since s (transcribe_and_type ev s)) = [x]"
  shows "\<exists>es. transcribe_and_type ev s =
     s\<lparr>status_label := (Ready, ''gray''),
        trace := trace s @
          [Print AudioLength, Print AudioShape, Print RmsAndMaxAmplitude, Print Transcribing,
           Transcribe x] @ es\<rparr>
     \<and> engine_calls es = [] \<and> warnings es = []
     \<and> (case transcribe ev x of
          Inl e \<Rightarrow> es = [Print (ErrorDuringTranscription e), UpdateStatus Error ''red'',
                          Sleep 1000, UpdateStatus Ready ''gray'']
        | Inr raw \<Rightarrow>
            if strip raw = [] then
              es = [Print NoTextTranscribed, UpdateStatus NoText ''orange'', Sleep 1000,
                    UpdateStatus Ready ''gray'']
            else
              statuses es = [Ready]
              \<and> prints es = [Transcribed (strip raw),
                   case snd (type_chars ev 0 (strip raw) s) of
                     None \<Rightarrow> TextTypedSuccessfully | Some e \<Rightarrow> ErrorTypingText e])"
proof -
  from session_cases [of s ev] assms
  obtain a where a: "np_concatenate (audio_buffer s) = Inr a" "sample_rate s \<noteq> 0"
      "data a \<noteq> []" "\<not> real (length (data a)) < real (sample_rate s) * (2 / 10)"
      "\<not> (root_mean_square (data a) < 1 / 1000 \<and> peak (data a) < 1 / 100)"
    by auto
  let ?a = "\<lparr>dtype = Float32, data = map (\<lambda>x. x / peak (data a)) (data a)\<rparr>"
  note acc = accepted_session [OF a, of ev]
  then obtain es where es: "transcribe_and_type ev s =
     s\<lparr>status_label := (Ready, ''gray''),
        trace := trace s @
          [Print AudioLength, Print AudioShape, Print RmsAndMaxAmplitude, Print Transcribing,
           Transcribe ?a] @ es\<rparr>" "engine_calls es = []"
    by blast
  have "engine_calls (events_since s (transcribe_and_type ev s)) = [?a]"
    unfolding es(1) using es(2) by (simp add: events_since_def engine_calls_append)
  with assms have "x = ?a" by simp
  with acc show ?thesis by simp
qed

text \<open>
  A run in which the model raised: the handler of lines 278-284 shows the error label,
  sleeps one second and shows the ready label; the keyboard is not called.
\<close>

lemma transcription_failure_recovers:
  assumes "engine_calls (events_since s (transcribe_and_type ev s)) = [x]"
    "transcribe ev x = Inl e"
  shows "statuses (events_since s (transcribe_and_type ev s)) = [Error, Ready]
       \<and> sleeps (events_since s (transcribe_and_type ev s)) = [1000]
       \<and> typed (events_since s (transcribe_and_type ev s)) = []
       \<and> status_label (transcribe_and_type ev s) = (Ready, ''gray'')"
proof -
  from engine_call_determines_session [OF assms(1)] assms(2)
  have "transcribe_and_type ev s =
     s\<lparr>status_label := (Ready, ''gray''),
        trace := trace s @
          [Print AudioLength, Print AudioShape, Print RmsAndMaxAmplitude, Print Transcribing,
           Transcribe x] @
          [Print (ErrorDuringTranscription e), UpdateStatus Error ''red'', Sleep 1000,
           UpdateStatus Ready ''gray'']\<rparr>"
    by auto
  then show ?thesis by (simp add: events_since_def)
qed

text \<open>Two chunks of amplitude one half: the model receives them at amplitude one.\<close>

lemma loud_session_engine_call:
  "engine_calls (events_since (released [chunk 1600 (1 / 2), chunk 1600 (1 / 2)])
      (transcribe_and_type ev (released [chunk 1600 (1 / 2), chunk 1600 (1 / 2)]))) =
   [\<lparr>dtype = Float32, data = replicate 1600 1 @ replicate 1600 1\<rparr>]"
proof -
  let ?s = "released [chunk 1600 (1 / 2), chunk 1600 (1 / 2)]"
  let ?a = "\<lparr>dtype = Float32, data = replicate 1600 (1 / 2) @ replicate 1600 (1 / 2 :: real)\<rparr>"
  have c: "np_concatenate (audio_buffer ?s) = Inr ?a"
    by (simp add: released_def np_concatenate_two)
  have r: "sample_rate ?s \<noteq> 0" by (simp add: released_def)
  have n: "data ?a \<noteq> []" by simp
  have l: "\<not> real (length (data ?a)) < real (sample_rate ?s) * (2 / 10)"
    by (simp add: released_def)
  have q: "\<not> (root_mean_square (data ?a) < 1 / 1000 \<and> peak (data ?a) < 1 / 100)"
    by (simp add: peak_two_chunks)
  from accepted_session [OF c r n l q, of ev]
  obtain es where es: "transcribe_and_type ev ?s =
     ?s\<lparr>status_label := (Ready, ''gray''),
        trace := trace ?s @
          [Print AudioLength, Print AudioShape, Print RmsAndMaxAmplitude, Print Transcribing,
           Transcribe \<lparr>dtype = Float32, data = map (\<lambda>x. x / peak (data ?a)) (data ?a)\<rparr>] @ es\<rparr>"
     "engine_calls es = []"
    by blast
  show ?thesis
    unfolding es(1) using es(2)
    by (simp add: events_since_def engine_calls_append peak_two_chunks)
qed


section \<open>The claims\<close>

text \<open>
  Claim C2, on the recording thread. When opening or starting the input stream raises,
  the handler of lines 200-206 clears the flag and shows the error label, and the method
  ends there: no sleep and no ready label follow, unlike in the handler of the
  transcription thread (lines 278-284).
\<close>

theorem recording_failure_leaves_error_label:
  "(input_stream ev = Some e \<longrightarrow>
      record_audio ev s =
        Some (s\<lparr>is_recording := False, status_label := (Error, ''red''),
                trace := trace s @ [StreamOpen, Print (ErrorDuringRecording e),
                                    UpdateStatus Error ''red'']\<rparr>))
   \<and> (input_stream ev = None \<longrightarrow> stream_start ev = Some e \<longrightarrow>
      record_audio ev s =
        Some (s\<lparr>is_recording := False, stream := True, status_label := (Error, ''red''),
                trace := trace s @ [StreamOpen, StreamStart, Print (ErrorDuringRecording e),
                                    UpdateStatus Error ''red'']\<rparr>))"
  by (simp add: record_audio_def try_record_audio_def effect_defs)

theorem recording_failure_leaves_error_label_witness:
  "record_audio ((collaborators (Inr ''hi'') (\<lambda>i. False))\<lparr>input_stream := Some PortAudioError\<rparr>)
     ((recording [])\<lparr>stream := False\<rparr>) =
   Some \<lparr>trigger_key = TriggerKey Key_ctrl_r, sample_rate = 16000, is_recording = False,
         audio_buffer = [], stream = False, status_label = (Error, ''red''),
         trace = [StreamOpen, Print (ErrorDuringRecording PortAudioError),
                  UpdateStatus Error ''red'']\<rparr>"
  using recording_failure_leaves_error_label
    [of "(collaborators (Inr ''hi'') (\<lambda>i. False))\<lparr>input_stream := Some PortAudioError\<rparr>"
        PortAudioError "(recording [])\<lparr>stream := False\<rparr>"]
  by (simp add: collaborators_def recording_def)

text \<open>
  Claim C4, as the code has it. At 16 kHz, every non-empty array whose samples are all
  zero is rejected before the normalisation, as "too short" when it holds fewer than 3200
  samples and as "silence" otherwise. For every non-empty array no numpy warning is
  raised (no division by zero), and whenever the model is called the peak that divided the
  samples is positive.
\<close>

theorem all_zero_array_rejected_before_division:
  assumes "sample_rate s = 16000" "np_concatenate (audio_buffer s) = Inr a" "data a \<noteq> []"
  shows
   "((\<forall>x\<in>set (data a). x = 0) \<longrightarrow>
        engine_calls (events_since s (transcribe_and_type ev s)) = []
        \<and> statuses (events_since s (transcribe_and_type ev s)) =
            (if length (data a) < 3200 then [TooShort, Ready] else [Silence, Ready]))
    \<and> warnings (events_since s (transcribe_and_type ev s)) = []
    \<and> (engine_calls (events_since s (transcribe_and_type ev s)) \<noteq> [] \<longrightarrow>
          0 < peak (data a)
          \<and> engine_calls (events_since s (transcribe_and_type ev s)) =
              [\<lparr>dtype = Float32, data = map (\<lambda>x. x / peak (data a)) (data a)\<rparr>])"
proof -
  have rate: "sample_rate s \<noteq> 0" using assms(1) by simp
  have dur: "(real (length (data a)) < real (sample_rate s) * (2 / 10))
              = (length (data a) < 3200)"
    using assms(1) by auto
  consider (short) "real (length (data a)) < real (sample_rate s) * (2 / 10)"
    | (silent) "\<not> real (length (data a)) < real (sample_rate s) * (2 / 10)"
        "root_mean_square (data a) < 1 / 1000" "peak (data a) < 1 / 100"
    | (loud) "\<not> real (length (data a)) < real (sample_rate s) * (2 / 10)"
        "\<not> (root_mean_square (data a) < 1 / 1000 \<and> peak (data a) < 1 / 100)"
    by blast
  then show ?thesis
  proof cases
    case short
    from too_short_session [OF assms(2) rate assms(3) short, of ev] short
    show ?thesis unfolding dur by (simp add: events_since_def)
  next
    case silent
    from silence_session [OF assms(2) rate assms(3) silent, of ev] silent(1)
    show ?thesis unfolding dur by (simp add: events_since_def)
  next
    case loud
    have pos: "0 < peak (data a)" using assms(3) loud(2) by (rule loud_peak_pos)
    have nz: "\<not> (\<forall>x\<in>set (data a). x = 0)"
      using all_zero_peak [OF assms(3)] pos by auto
    obtain es where es: "transcribe_and_type ev s =
       s\<lparr>status_label := (Ready, ''gray''),
          trace := trace s @
            [Print AudioLength, Print AudioShape, Print RmsAndMaxAmplitude, Print Transcribing,
             Transcribe \<lparr>dtype = Float32, data = map (\<lambda>x. x / peak (data a)) (data a)\<rparr>] @ es\<rparr>"
      "engine_calls es = []" "warnings es = []"
      using accepted_session [OF assms(2) rate assms(3) loud, of ev] by blast
    show ?thesis
      using pos nz es(2,3) unfolding es(1)
      by (simp add: events_since_def engine_calls_append warnings_append)
  qed
qed

theorem all_zero_array_rejected_before_division_witness:
  "engine_calls (events_since (released [chunk 1600 0, chunk 1600 0])
      (transcribe_and_type (collaborators (Inr ''hello'') (\<lambda>i. False))
         (released [chunk 1600 0, chunk 1600 0]))) = []
   \<and> statuses (events_since (released [chunk 1600 0, chunk 1600 0])
      (transcribe_and_type (collaborators (Inr ''hello'') (\<lambda>i. False))
         (released [chunk 1600 0, chunk 1600 0]))) = [Silence, Ready]
   \<and> warnings (events_since (released [chunk 1600 0, chunk 1600 0])
      (transcribe_and_type (collaborators (Inr ''hello'') (\<lambda>i. False))
         (released [chunk 1600 0, chunk 1600 0]))) = []"
proof -
  let ?ev = "collaborators (Inr ''hello'') (\<lambda>i. False)"
  have r: "sample_rate (released b) = 16000" for b by (simp add: released_def)
  have c2: "np_concatenate (audio_buffer (released [chunk 1600 0, chunk 1600 0])) =
      Inr \<lparr>dtype = Float32, data = replicate 1600 0 @ replicate 1600 0\<rparr>"
    by (simp add: released_def np_concatenate_two)
  have n2: "data \<lparr>dtype = Float32, data = replicate 1600 0 @ replicate 1600 (0::real)\<rparr> \<noteq> []"
    by simp
  show ?thesis
    using all_zero_array_rejected_before_division [OF r c2 n2, of ?ev]
    by simp
qed

text \<open>
  Claim C4 as stated fails on 0.1 s of zeros: the peak is zero and the rejection is "too
  short", not "silence".
\<close>

theorem all_zero_array_counterexample:
  "peak (replicate 1600 0) = 0
   \<and> statuses (events_since (released [chunk 1600 0])
        (transcribe_and_type (collaborators (Inr ''hello'') (\<lambda>i. False))
           (released [chunk 1600 0]))) = [TooShort, Ready]"
proof -
  have "np_concatenate (audio_buffer (released [chunk 1600 0])) = Inr (chunk 1600 0)"
    by (simp add: released_def np_concatenate_single)
  from too_short_session [OF this, of "collaborators (Inr ''hello'') (\<lambda>i. False)"]
  show ?thesis
    by (simp add: released_def chunk_def events_since_def peak_replicate)
qed

text \<open>
  Claim C5. A press of the trigger key while no recording is running (in particular in the
  ready state) clears the buffer, sets the flag, shows the recording label and starts the
  recording thread exactly once; a press while a recording is running (key repeat)
  changes nothing.
\<close>

theorem trigger_down_starts_one_session:
  assumes "key_matches (trigger_key s) k = Inr True"
  shows "(\<not> is_recording s \<longrightarrow>
            on_key_press s k =
              Inr (s\<lparr>is_recording := True, audio_buffer := [],
                      status_label := (Recording, ''red''),
                      trace := trace s @ [Print RecordingStarted, UpdateStatus Recording ''red'',
                                          StartThread RecordAudio]\<rparr>))
       \<and> (is_recording s \<longrightarrow> on_key_press s k = Inr s)"
  using assms by (simp add: on_key_press_def effect_defs)

theorem trigger_down_starts_one_session_witness:
  "on_key_press (released [chunk 1600 0]) (Key Key_ctrl_r) =
     Inr \<lparr>trigger_key = TriggerKey Key_ctrl_r, sample_rate = 16000, is_recording = True,
          audio_buffer = [], stream = False, status_label = (Recording, ''red''),
          trace = [Print RecordingStarted, UpdateStatus Recording ''red'',
                   StartThread RecordAudio]\<rparr>
   \<and> on_key_press (recording [chunk 1600 0]) (Key Key_ctrl_r) = Inr (recording [chunk 1600 0])"
proof -
  have m1: "key_matches (trigger_key (released [chunk 1600 0])) (Key Key_ctrl_r) = Inr True"
    by (simp add: released_def key_matches_def)
  have m2: "key_matches (trigger_key (recording [chunk 1600 0])) (Key Key_ctrl_r) = Inr True"
    by (simp add: recording_def key_matches_def)
  show ?thesis
    using trigger_down_starts_one_session [OF m1] trigger_down_starts_one_session [OF m2]
    by (simp add: released_def recording_def)
qed




text \<open>
  Claim C7. For an array with a positive peak, the normalisation step divides every
  sample by the peak; the peak of the result is exactly 1 (samples are real numbers here),
  and normalising the result again returns it unchanged.
\<close>

theorem peak_normalization_idempotent:
  assumes "data a \<noteq> []" "0 < peak (data a)"
  shows "fst (fst (normalize_audio a s)) =
           \<lparr>dtype = Float32, data = map (\<lambda>x. x / peak (data a)) (data a)\<rparr>
       \<and> peak (data (fst (fst (normalize_audio a s)))) = 1
       \<and> normalize_audio (fst (fst (normalize_audio a s))) s'
           = ((fst (fst (normalize_audio a s)), s'), None)"
proof -
  let ?b = "\<lparr>dtype = Float32, data = map (\<lambda>x. x / peak (data a)) (data a)\<rparr>"
  have n: "normalize_audio a s = ((?b, s), None)"
    by (rule normalize_audio_pos [OF assms])
  have p: "peak (data ?b) = 1" using peak_normalized [OF assms] by simp
  have ne: "data ?b \<noteq> []" using assms(1) by simp
  have "normalize_audio ?b s' = ((?b, s'), None)"
    using normalize_audio_pos [OF ne, of s'] p by simp
  then show ?thesis using n p by simp
qed

theorem peak_normalization_idempotent_witness:
  "fst (fst (normalize_audio \<lparr>dtype = Float64, data = [1 / 4, - (1 / 2), 0]\<rparr> (released [])))
     = \<lparr>dtype = Float32, data = [1 / 2, - 1, 0]\<rparr>
   \<and> peak [1 / 2, - 1, 0 :: real] = 1
   \<and> normalize_audio \<lparr>dtype = Float32, data = [1 / 2, - 1, 0]\<rparr> (recording [])
       = ((\<lparr>dtype = Float32, data = [1 / 2, - 1, 0]\<rparr>, recording []), None)"
proof -
  have ne: "data \<lparr>dtype = Float64, data = [1 / 4, - (1 / 2), 0 :: real]\<rparr> \<noteq> []" by simp
  have p: "peak [1 / 4, - (1 / 2), 0 :: real] = 1 / 2" by (simp add: peak_def)
  have pos: "0 < peak (data \<lparr>dtype = Float64, data = [1 / 4, - (1 / 2), 0 :: real]\<rparr>)"
    by (simp add: p)
  have q: "peak [1 / 2, - 1, 0 :: real] = 1" by (simp add: peak_def)
  have pos': "0 < peak (data \<lparr>dtype = Float32, data = [1 / 2, - 1, 0 :: real]\<rparr>)"
    by (simp add: q)
  note t = peak_normalization_idempotent [OF ne pos, of "released []" "recording []"]
  have e: "\<lparr>dtype = Float32,
            data = map (\<lambda>x. x / peak (data \<lparr>dtype = Float64, data = [1 / 4, - (1 / 2), 0]\<rparr>))
                     (data \<lparr>dtype = Float64, data = [1 / 4, - (1 / 2), 0]\<rparr>)\<rparr>
           = \<lparr>dtype = Float32, data = [1 / 2, - 1, 0]\<rparr>"
    by (simp add: p)
  from t have t1: "fst (fst (normalize_audio \<lparr>dtype = Float64, data = [1 / 4, - (1 / 2), 0]\<rparr>
                     (released []))) = \<lparr>dtype = Float32, data = [1 / 2, - 1, 0]\<rparr>"
    unfolding e by blast
  from t have "normalize_audio \<lparr>dtype = Float32, data = [1 / 2, - 1, 0]\<rparr> (recording [])
       = ((\<lparr>dtype = Float32, data = [1 / 2, - 1, 0]\<rparr>, recording []), None)"
    unfolding t1 by blast
  with t1 q show ?thesis by blast
qed

text \<open>
  Claim C8. In every run that called the model, with an answer that is empty after
  \<^verbatim>\<open>strip\<close>: the keyboard is never called, the labels shown are "no text" and then "ready"
  (never "error"), and the label at the end is "ready".
\<close>

theorem blank_transcription_types_nothing:
  assumes "engine_calls (events_since s (transcribe_and_type ev s)) = [x]"
    "transcribe ev x = Inr raw" "strip raw = []"
  shows "typed (events_since s (transcribe_and_type ev s)) = []
       \<and> statuses (events_since s (transcribe_and_type ev s)) = [NoText, Ready]
       \<and> prints (events_since s (transcribe_and_type ev s)) =
           [AudioLength, AudioShape, RmsAndMaxAmplitude, Transcribing, NoTextTranscribed]
       \<and> sleeps (events_since s (transcribe_and_type ev s)) = [1000]
       \<and> status_label (transcribe_and_type ev s) = (Ready, ''gray'')"
proof -
  from engine_call_determines_session [OF assms(1)] assms(2,3)
  have "transcribe_and_type ev s =
     s\<lparr>status_label := (Ready, ''gray''),
        trace := trace s @
          [Print AudioLength, Print AudioShape, Print RmsAndMaxAmplitude, Print Transcribing,
           Transcribe x] @
          [Print NoTextTranscribed, UpdateStatus NoText ''orange'', Sleep 1000,
           UpdateStatus Ready ''gray'']\<rparr>"
    by auto
  then show ?thesis by (simp add: events_since_def)
qed

theorem blank_transcription_types_nothing_witness:
  "typed (events_since (released [chunk 1600 (1 / 2), chunk 1600 (1 / 2)])
     (transcribe_and_type
        ((collaborators (Inr []) (\<lambda>i. False))
           \<lparr>transcribe := (\<lambda>a. Inr [0x20, 0xA0, 0x3000, 0x0A])\<rparr>)
        (released [chunk 1600 (1 / 2), chunk 1600 (1 / 2)]))) = []
   \<and> statuses (events_since (released [chunk 1600 (1 / 2), chunk 1600 (1 / 2)])
     (transcribe_and_type
        ((collaborators (Inr []) (\<lambda>i. False))
           \<lparr>transcribe := (\<lambda>a. Inr [0x20, 0xA0, 0x3000, 0x0A])\<rparr>)
        (released [chunk 1600 (1 / 2), chunk 1600 (1 / 2)]))) = [NoText, Ready]
   \<and> status_label
     (transcribe_and_type
        ((collaborators (Inr []) (\<lambda>i. False))
           \<lparr>transcribe := (\<lambda>a. Inr [0x20, 0xA0, 0x3000, 0x0A])\<rparr>)
        (released [chunk 1600 (1 / 2), chunk 1600 (1 / 2)])) = (Ready, ''gray'')"
proof -
  let ?ev = "(collaborators (Inr []) (\<lambda>i. False))
               \<lparr>transcribe := (\<lambda>a. Inr [0x20, 0xA0, 0x3000, 0x0A])\<rparr>"
  have t: "transcribe ?ev \<lparr>dtype = Float32, data = replicate 1600 1 @ replicate 1600 1\<rparr>
             = Inr [0x20, 0xA0, 0x3000, 0x0A]"
    by simp
  from blank_transcription_types_nothing [OF loud_session_engine_call t strip_blank]
  show ?thesis by blast
qed

text \<open>
  Claim C9. In every run in which the model answered a text and the \<open>i\<close>-th keyboard
  call is the first to raise: the only label shown is "ready" (never "error"), the
  messages printed end with the typing error (printed by the injection step; the
  transcription handler prints nothing), and the label at the end is "ready".
\<close>

theorem typing_failure_is_logged_not_escalated:
  assumes "engine_calls (events_since s (transcribe_and_type ev s)) = [x]"
    "transcribe ev x = Inr raw"
    "i < length (strip raw)" "keyboard_type ev i (strip raw ! i) = Some e"
    "\<forall>j<i. keyboard_type ev j (strip raw ! j) = None"
  shows "statuses (events_since s (transcribe_and_type ev s)) = [Ready]
       \<and> prints (events_since s (transcribe_and_type ev s)) =
           [AudioLength, AudioShape, RmsAndMaxAmplitude, Transcribing,
            Transcribed (strip raw), ErrorTypingText e]
       \<and> status_label (transcribe_and_type ev s) = (Ready, ''gray'')"
proof -
  have ne: "strip raw \<noteq> []" using assms(3) by auto
  have raised: "snd (type_chars ev 0 (strip raw) s) = Some e"
    using type_chars_raises [of i "strip raw" ev 0 e s] assms(3-5) by simp
  from engine_call_determines_session [OF assms(1)] assms(2) ne raised
  obtain es where es: "transcribe_and_type ev s =
     s\<lparr>status_label := (Ready, ''gray''),
        trace := trace s @
          [Print AudioLength, Print AudioShape, Print RmsAndMaxAmplitude, Print Transcribing,
           Transcribe x] @ es\<rparr>"
     "statuses es = [Ready]" "prints es = [Transcribed (strip raw), ErrorTypingText e]"
    by auto
  show ?thesis
    unfolding es(1) using es(2,3)
    by (simp add: events_since_def statuses_append prints_append)
qed

theorem typing_failure_is_logged_not_escalated_witness:
  "statuses (events_since (released [chunk 1600 (1 / 2), chunk 1600 (1 / 2)])
     (transcribe_and_type (collaborators (Inr '' hi '') (\<lambda>i. i = 1))
        (released [chunk 1600 (1 / 2), chunk 1600 (1 / 2)]))) = [Ready]
   \<and> prints (events_since (released [chunk 1600 (1 / 2), chunk 1600 (1 / 2)])
     (transcribe_and_type (collaborators (Inr '' hi '') (\<lambda>i. i = 1))
        (released [chunk 1600 (1 / 2), chunk 1600 (1 / 2)]))) =
       [AudioLength, AudioShape, RmsAndMaxAmplitude, Transcribing,
        Transcribed [0x68, 0x69], ErrorTypingText ControllerError]
   \<and> status_label (transcribe_and_type (collaborators (Inr '' hi '') (\<lambda>i. i = 1))
        (released [chunk 1600 (1 / 2), chunk 1600 (1 / 2)])) = (Ready, ''gray'')"
proof -
  let ?ev = "collaborators (Inr '' hi '') (\<lambda>i. i = 1)"
  have t: "transcribe ?ev \<lparr>dtype = Float32, data = replicate 1600 1 @ replicate 1600 1\<rparr>
             = Inr (codepoints '' hi '')"
    by (simp add: collaborators_def)
  have i: "1 < length (strip (codepoints '' hi ''))" by (simp add: strip_hi)
  have k: "keyboard_type ?ev 1 (strip (codepoints '' hi '') ! 1) = Some ControllerError"
    by (simp add: collaborators_def)
  have b: "\<forall>j<1. keyboard_type ?ev j (strip (codepoints '' hi '') ! j) = None"
    by (simp add: collaborators_def)
  from typing_failure_is_logged_not_escalated [OF loud_session_engine_call t i k b]
  show ?thesis by (simp add: strip_hi)
qed

text \<open>
  Claim C10. Matching a key event against the trigger never raises, for any trigger and
  any key event. With a character string as trigger, a key event without the attribute
  \<^verbatim>\<open>char\<close> (a member of \<^verbatim>\<open>Key\<close>) does not match, and both handlers return normally and
  leave the object as it was.
\<close>

theorem key_without_char_never_matches:
  "(\<exists>b. key_matches t k = Inr b) \<and>
   (\<not> hasattr_char k \<longrightarrow> trigger_key s = TriggerStr c \<longrightarrow>
      key_matches (trigger_key s) k = Inr False
      \<and> on_key_press s k = Inr s \<and> on_key_release s k = Inr s)"
proof -
  have total: "\<exists>b. key_matches t k = Inr b"
    by (cases t; cases k) (auto simp add: key_matches_def hasattr_char_def)
  have special: "key_matches (TriggerStr c) k = Inr False" if "\<not> hasattr_char k"
    using that by (simp add: key_matches_def)
  show ?thesis
    using total special by (simp add: on_key_press_def on_key_release_def)
qed

theorem key_without_char_never_matches_witness:
  "\<not> hasattr_char (Key Key_esc)
   \<and> key_matches (TriggerStr ''r'') (Key Key_esc) = Inr False
   \<and> on_key_press ((recording [])\<lparr>trigger_key := TriggerStr ''r''\<rparr>) (Key Key_esc)
       = Inr ((recording [])\<lparr>trigger_key := TriggerStr ''r''\<rparr>)
   \<and> on_key_release ((recording [])\<lparr>trigger_key := TriggerStr ''r''\<rparr>) (Key Key_esc)
       = Inr ((recording [])\<lparr>trigger_key := TriggerStr ''r''\<rparr>)"
  using key_without_char_never_matches
    [of "TriggerStr ''r''" "Key Key_esc" "(recording [])\<lparr>trigger_key := TriggerStr ''r''\<rparr>" "''r''"]
  by (simp add: hasattr_char_def)

end
